theory Spec2Isabelle
  imports Complex_Main
begin

section \<open>Inventory reorder predictor: the prediction pipeline of InventoryPredictor\<close>

text \<open>
  The component exists in three versions; two of them are modelled here. The first derives
  a reorder point (\<open>calculateReorderPoint\<close>) and labels a product by
  \<open>stock <= reorderPoint\<close>; the second derives the days of stock left
  (\<open>calculateDaysToReplenish\<close>) and labels a product by \<open>daysLeft <= lead_time\<close>.

  None of the operators the metric functions use (\<open>||\<close>, \<open>*\<close>, \<open>/\<close>, \<open>===\<close>,
  \<open>Math.floor\<close>) throws in JavaScript on a number, \<open>undefined\<close> or \<open>null\<close>, so
  these functions have no error branch.
\<close>

subsection \<open>Values of a catalogue field\<close>

text \<open>
  A numeric field of a product record holds a number, or is missing: the key is absent
  (\<open>undefined\<close>) or its value is \<open>null\<close>. A JavaScript number is an IEEE 754 binary64
  value: \<open>Num r\<close> is the finite one whose value is the real \<open>r\<close> (\<open>Num 0\<close> is \<open>+0\<close>),
  and \<open>NegZero\<close>, \<open>PosInf\<close>, \<open>NegInf\<close> and \<open>NaN\<close> are \<open>-0\<close>, \<open>Infinity\<close>,
  \<open>-Infinity\<close> and \<open>NaN\<close>.
\<close>

datatype jsval = Undefined | Null | Num real | NegZero | PosInf | NegInf | NaN

subsection \<open>Rounding to binary64\<close>

text \<open>
  The exponent of the binade of a positive real \<open>a\<close>: the largest \<open>e\<close> from \<open>-1022\<close> on
  with \<open>2^e \<le> a\<close>, and \<open>-1022\<close> for a subnormal \<open>a\<close>. It is found by bisection over
  the \<open>2^k\<close> exponents from \<open>e\<close> on.
\<close>

fun expo_search :: "nat \<Rightarrow> int \<Rightarrow> real \<Rightarrow> int" where
  "expo_search 0 e a = e"
| "expo_search (Suc k) e a =
     (if 2 powi (e + 2 ^ k) \<le> a then expo_search k (e + 2 ^ k) a else expo_search k e a)"

definition expo :: "real \<Rightarrow> int" where
  "expo a = expo_search 11 (- 1022) a"

text \<open>The nearest integer, a tie going to the even one.\<close>

definition round_half_even :: "real \<Rightarrow> int" where
  "round_half_even q =
     (let f = \<lfloor>q\<rfloor>; d = q - of_int f
      in if d < 1 / 2 then f else if 1 / 2 < d then f + 1 else if even f then f else f + 1)"

text \<open>
  The magnitude \<open>a\<close> rounded to 53 significant bits: a multiple of the unit in the last
  place of its binade, \<open>2^(e - 52)\<close>.
\<close>

definition round_mag :: "real \<Rightarrow> real" where
  "round_mag a = (let ulp = 2 powi (expo a - 52) in of_int (round_half_even (a / ulp)) * ulp)"

text \<open>
  The binary64 value of an exact result \<open>x\<close>, round to nearest, ties to even: a magnitude
  that rounds to \<open>2^1024\<close> or more overflows to an infinity, and one that rounds to zero
  keeps the sign of \<open>x\<close>. It is also the number a decimal literal of value \<open>x\<close> denotes.
\<close>

definition round64 :: "real \<Rightarrow> jsval" where
  "round64 x =
     (let m = round_mag \<bar>x\<bar>
      in if 2 powi 1024 \<le> m then (if x < 0 then NegInf else PosInf)
         else if m = 0 then (if x < 0 then NegZero else Num 0)
         else Num (if x < 0 then - m else m))"

text \<open>The least positive binary64 value, \<open>5e-324\<close>.\<close>

definition least_positive :: real where
  "least_positive = 2 powi (- 1074)"

subsection \<open>Operators\<close>

text \<open>ToNumber: \<open>undefined\<close> becomes \<open>NaN\<close> and \<open>null\<close> becomes \<open>0\<close>.\<close>

fun to_number :: "jsval \<Rightarrow> jsval" where
  "to_number Undefined = NaN"
| "to_number Null = Num 0"
| "to_number v = v"

text \<open>ToBoolean: \<open>undefined\<close>, \<open>null\<close>, \<open>0\<close>, \<open>-0\<close> and \<open>NaN\<close> are falsy.\<close>

fun truthy :: "jsval \<Rightarrow> bool" where
  "truthy Undefined = False"
| "truthy Null = False"
| "truthy (Num r) = (r \<noteq> 0)"
| "truthy NegZero = False"
| "truthy NaN = False"
| "truthy PosInf = True"
| "truthy NegInf = True"

text \<open>The expression \<open>x || 0\<close>: \<open>x\<close> when it is truthy, else \<open>0\<close>. It is always a number.\<close>

definition or_zero :: "jsval \<Rightarrow> jsval" where
  "or_zero v = (if truthy v then v else Num 0)"

text \<open>Of a number: whether it is a zero, an infinity, has its sign bit set; its value.\<close>

fun is_zero :: "jsval \<Rightarrow> bool" where
  "is_zero (Num r) = (r = 0)"
| "is_zero NegZero = True"
| "is_zero v = False"

fun is_inf :: "jsval \<Rightarrow> bool" where
  "is_inf PosInf = True"
| "is_inf NegInf = True"
| "is_inf v = False"

fun negative :: "jsval \<Rightarrow> bool" where
  "negative (Num r) = (r < 0)"
| "negative NegZero = True"
| "negative NegInf = True"
| "negative v = False"

fun fin_val :: "jsval \<Rightarrow> real" where
  "fin_val (Num r) = r"
| "fin_val v = 0"

definition signed_zero :: "bool \<Rightarrow> jsval" where
  "signed_zero neg = (if neg then NegZero else Num 0)"

definition signed_inf :: "bool \<Rightarrow> jsval" where
  "signed_inf neg = (if neg then NegInf else PosInf)"

text \<open>
  \<open>x * y\<close>. A \<open>NaN\<close> operand gives \<open>NaN\<close>, and so does an infinity times a zero; the
  sign of every other result is the exclusive or of the operands' signs; the product of
  two finite nonzero numbers is the exact product rounded.
\<close>

definition js_mul :: "jsval \<Rightarrow> jsval \<Rightarrow> jsval" where
  "js_mul a b =
     (let x = to_number a; y = to_number b
      in if x = NaN \<or> y = NaN then NaN
         else if (is_inf x \<and> is_zero y) \<or> (is_zero x \<and> is_inf y) then NaN
         else if is_inf x \<or> is_inf y then signed_inf (negative x \<noteq> negative y)
         else if is_zero x \<or> is_zero y then signed_zero (negative x \<noteq> negative y)
         else round64 (fin_val x * fin_val y))"

text \<open>
  \<open>x / y\<close>. A \<open>NaN\<close> operand gives \<open>NaN\<close>, and so do an infinity by an infinity and a
  zero by a zero; an infinity by a finite number and a nonzero number by a zero give an
  infinity; a finite number by an infinity and a zero by a nonzero number give a zero; the
  quotient of two finite nonzero numbers is the exact quotient rounded.
\<close>

definition js_div :: "jsval \<Rightarrow> jsval \<Rightarrow> jsval" where
  "js_div a b =
     (let x = to_number a; y = to_number b
      in if x = NaN \<or> y = NaN then NaN
         else if (is_inf x \<and> is_inf y) \<or> (is_zero x \<and> is_zero y) then NaN
         else if is_inf x \<or> is_zero y then signed_inf (negative x \<noteq> negative y)
         else if is_inf y \<or> is_zero x then signed_zero (negative x \<noteq> negative y)
         else round64 (fin_val x / fin_val y))"

text \<open>
  \<open>Math.floor(x)\<close>: the zeros, the infinities and \<open>NaN\<close> are returned as they are. The
  floor of a binary64 value is a binary64 value.
\<close>

definition js_floor :: "jsval \<Rightarrow> jsval" where
  "js_floor a =
     (case to_number a of
        Num r \<Rightarrow> Num (of_int \<lfloor>r\<rfloor>)
      | v \<Rightarrow> v)"

text \<open>
  \<open>x <= y\<close>: false when an operand is \<open>NaN\<close>; \<open>-0\<close> and \<open>+0\<close> are equal.
\<close>

definition js_le :: "jsval \<Rightarrow> jsval \<Rightarrow> bool" where
  "js_le a b =
     (let x = to_number a; y = to_number b
      in if x = NaN \<or> y = NaN then False
         else if x = NegInf \<or> y = PosInf then True
         else if x = PosInf \<or> y = NegInf then False
         else fin_val x \<le> fin_val y)"

text \<open>
  The readings used in the statements below. "The field, or 0": the number the field
  holds, and \<open>0\<close> when it is missing (or holds \<open>-0\<close> or \<open>NaN\<close>). "Zero or missing":
  the field is missing, or holds a zero (or \<open>NaN\<close>).
\<close>

definition num_or_0 :: "jsval \<Rightarrow> jsval" where
  "num_or_0 v =
     (case v of
        Undefined \<Rightarrow> Num 0 | Null \<Rightarrow> Num 0 | NegZero \<Rightarrow> Num 0 | NaN \<Rightarrow> Num 0
      | Num r \<Rightarrow> Num r | PosInf \<Rightarrow> PosInf | NegInf \<Rightarrow> NegInf)"

definition missing :: "jsval \<Rightarrow> bool" where
  "missing v = (v = Undefined \<or> v = Null)"

definition zero_or_missing :: "jsval \<Rightarrow> bool" where
  "zero_or_missing v = (missing v \<or> v = Num 0 \<or> v = NegZero \<or> v = NaN)"

text \<open>
  A non-negative number: a finite number that is at least \<open>0\<close>, or \<open>Infinity\<close>. The
  sign bit is clear, so \<open>-0\<close> is not one, and neither is \<open>NaN\<close>.
\<close>

definition non_negative :: "jsval \<Rightarrow> bool" where
  "non_negative v =
     (case v of Num r \<Rightarrow> 0 \<le> r | PosInf \<Rightarrow> True | NegZero \<Rightarrow> False
      | NegInf \<Rightarrow> False | NaN \<Rightarrow> False | Undefined \<Rightarrow> False | Null \<Rightarrow> False)"

definition is_number :: "jsval \<Rightarrow> bool" where
  "is_number v = (v \<noteq> Undefined \<and> v \<noteq> Null)"

subsection \<open>Product records\<close>

record product =
  name :: string
  stock :: jsval
  average_weekly_sales :: jsval
  lead_time :: jsval

subsection \<open>The metric functions\<close>

text \<open>
  \<^verbatim>\<open>
  const calculateReorderPoint = (avgSales, leadTime) => {
      const sales = avgSales || 0;
      const time = leadTime || 0;
      return (sales * time);
  };
  \<close>
\<close>

definition calculateReorderPoint :: "jsval \<Rightarrow> jsval \<Rightarrow> jsval" where
  "calculateReorderPoint avgSales leadTime =
     (let sales = or_zero avgSales;
          time = or_zero leadTime
      in js_mul sales time)"

text \<open>
  \<^verbatim>\<open>
  const calculateDaysToReplenish = (stock, avgWeeklySales) => {
      const safeStock = stock || 0;
      const safeSales = avgWeeklySales || 0;
      if (safeSales === 0) return 999;
      const dailySales = safeSales / 7;
      return Math.floor(safeStock / dailySales);
  };
  \<close>
  The parameter \<open>stock\<close> is written \<open>stockVal\<close> (the record's field has the name).
  \<open>safeSales\<close> is a number, and \<open>safeSales === 0\<close> holds of the two zeros.
\<close>

definition calculateDaysToReplenish :: "jsval \<Rightarrow> jsval \<Rightarrow> jsval" where
  "calculateDaysToReplenish stockVal avgWeeklySales =
     (let safeStock = or_zero stockVal;
          safeSales = or_zero avgWeeklySales
      in if is_zero safeSales then Num 999
         else let dailySales = js_div safeSales (Num 7)
              in js_floor (js_div safeStock dailySales))"

subsection \<open>The training sets\<close>

text \<open>
  \<^verbatim>\<open>
  const trainingInputs = products.map(p => [
      p.stock,
      p.average_weekly_sales || 0,
      p.lead_time || 0,
  ]);
  \<close>
  The same expression builds the single row of each inference call.
\<close>

definition featureRow :: "'a product_scheme \<Rightarrow> jsval list" where
  "featureRow p = [stock p, or_zero (average_weekly_sales p), or_zero (lead_time p)]"

definition trainingInputs :: "'a product_scheme list \<Rightarrow> jsval list list" where
  "trainingInputs products = map featureRow products"

text \<open>
  First version:
  \<^verbatim>\<open>
  const trainingOutputs = products.map(p => {
      const reorderPoint = calculateReorderPoint(p.average_weekly_sales, p.lead_time);
      return p.stock <= reorderPoint ? 1 : 0;
  });
  \<close>
\<close>

definition trainingOutputs :: "'a product_scheme list \<Rightarrow> nat list" where
  "trainingOutputs products =
     map (\<lambda>p. let reorderPoint = calculateReorderPoint (average_weekly_sales p) (lead_time p)
              in if js_le (stock p) reorderPoint then 1 else 0) products"

text \<open>
  Second version:
  \<^verbatim>\<open>
  const trainingOutputs = products.map(p => {
      const daysLeft = calculateDaysToReplenish(p.stock, p.average_weekly_sales);
      return daysLeft <= (p.lead_time || 0) ? 1 : 0;
  });
  \<close>
\<close>

definition trainingOutputs_days :: "'a product_scheme list \<Rightarrow> nat list" where
  "trainingOutputs_days products =
     map (\<lambda>p. let daysLeft = calculateDaysToReplenish (stock p) (average_weekly_sales p)
              in if js_le daysLeft (or_zero (lead_time p)) then 1 else 0) products"

subsection \<open>The component's state\<close>

text \<open>
  The first version stores each fetched record with its reorder point
  (\<open>{...p, reorder_point: calculateReorderPoint(p.average_weekly_sales, p.lead_time)}\<close>).
\<close>

record fetched = product +
  reorder_point :: jsval

text \<open>
  The objects pushed onto \<open>preds\<close>. The fields \<open>name\<close>, \<open>prediction\<close>, \<open>stock\<close>
  and \<open>reorder_point\<close> carry the prefix \<open>res_\<close>: a record field is a constant of
  the theory, and two records cannot share one.
\<close>

record prediction =
  res_name :: string
  res_prediction :: string
  res_stock :: jsval
  avgSales :: jsval
  leadTime :: jsval
  res_reorder_point :: jsval

text \<open>
  TensorFlow.js is not part of the repository; the model takes from it what the code
  relies on. A tensor is a buffer that stays allocated until \<open>dispose\<close> is called on it:
  \<open>tf.tensor2d\<close> allocates one, and \<open>model.predict\<close> returns a newly allocated one
  that holds the output (\<open>.data()\<close> reads it and does not release it). \<open>model.fit\<close>
  and \<open>model.predict(...).data()\<close> are asynchronous and may reject, which at an
  \<open>await\<close> is a throw. The weights of the model are not tracked: they belong to the
  model, not to one call.

  A trained model is its prediction function, from the row of an input tensor to the
  value read from the output; the trainer is a parameter, from the training sets to a
  trained model or the exception thrown.
\<close>

datatype exn = Thrown string

type_synonym model = "jsval list \<Rightarrow> exn + real"

type_synonym trainer = "jsval list list \<Rightarrow> nat list \<Rightarrow> exn + model"

text \<open>The calls into the library, in order: \<open>Fit xs ys epochs shuffle\<close> and \<open>Predict row\<close>.\<close>

datatype call = Fit "jsval list list" "nat list" nat bool | Predict "jsval list"

text \<open>
  The five \<open>useState\<close> cells of the component, with the tensors that are allocated
  (\<open>live\<close>, by identifier; \<open>next_id\<close> is the next fresh identifier) and the calls made
  into the library so far.
\<close>

record world =
  products :: "fetched list"
  predictionResults :: "prediction list"
  loading :: bool
  predicting :: bool
  error :: "string option"
  live :: "nat list"
  next_id :: nat
  calls :: "call list"

definition init :: world where
  "init = \<lparr>products = [], predictionResults = [], loading = True, predicting = False,
            error = None, live = [], next_id = 0, calls = []\<rparr>"

definition alloc_tensor :: "world \<Rightarrow> nat \<times> world" where
  "alloc_tensor w = (next_id w, w\<lparr>live := live w @ [next_id w], next_id := Suc (next_id w)\<rparr>)"

definition dispose :: "nat \<Rightarrow> world \<Rightarrow> world" where
  "dispose t w = w\<lparr>live := removeAll t (live w)\<rparr>"

subsection \<open>Fetching the catalogue\<close>

text \<open>
  \<^verbatim>\<open>
  .then(data => {
      const productsWithReorderPoint = data.map(p => ({
          ...p,
          reorder_point: calculateReorderPoint(p.average_weekly_sales, p.lead_time)
      }));
      setProducts(productsWithReorderPoint);
      setLoading(false);
  })
  .catch((err) => {
      setError(err.message || 'Error fetching products');
      setLoading(false);
  });
  \<close>
\<close>

definition fetch_then :: "product list \<Rightarrow> world \<Rightarrow> world" where
  "fetch_then data w =
     w\<lparr>products :=
          map (\<lambda>p. \<lparr>name = name p, stock = stock p,
                     average_weekly_sales = average_weekly_sales p, lead_time = lead_time p,
                     reorder_point = calculateReorderPoint (average_weekly_sales p) (lead_time p)\<rparr>)
            data,
       loading := False\<rparr>"

definition fetch_catch :: "string \<Rightarrow> world \<Rightarrow> world" where
  "fetch_catch message w =
     w\<lparr>error := Some (if message = [] then ''Error fetching products'' else message),
       loading := False\<rparr>"

subsection \<open>handlePredict\<close>

text \<open>
  The inference loop:
  \<^verbatim>\<open>
  const preds = [];
  for (const p of products) {
      const inputTensor = tf.tensor2d([[p.stock, p.average_weekly_sales || 0, p.lead_time || 0]]);
      const predVal = (await model.predict(inputTensor).data())[0];
      inputTensor.dispose();
      const reorderPoint = calculateReorderPoint(p.average_weekly_sales, p.lead_time);
      preds.push({
          name: p.name,
          prediction: predVal > 0.5 ? 'Reorder' : 'No Reorder',
          stock: p.stock,
          avgSales: p.average_weekly_sales,
          leadTime: p.lead_time,
          reorder_point: reorderPoint,
      });
  }
  \<close>
  The loop is a recursion on the products left, with \<open>preds\<close> as the accumulator. A
  throw at the \<open>await\<close> leaves the loop with the world as it is at that point: the
  input tensor is allocated, and the throw is taken to come before an output tensor
  exists.
\<close>

fun predict_loop ::
  "model \<Rightarrow> fetched list \<Rightarrow> prediction list \<Rightarrow> world \<Rightarrow> (exn + prediction list) \<times> world"
where
  "predict_loop model [] preds w = (Inr preds, w)"
| "predict_loop model (p # ps) preds w =
     (let (inputTensor, w1) = alloc_tensor w;
          row = featureRow p;
          w2 = w1\<lparr>calls := calls w1 @ [Predict row]\<rparr>
      in case model row of
           Inl e \<Rightarrow> (Inl e, w2)
         | Inr predVal \<Rightarrow>
             (let (outputTensor, w3) = alloc_tensor w2;
                  w4 = dispose inputTensor w3;
                  reorderPoint = calculateReorderPoint (average_weekly_sales p) (lead_time p)
              in predict_loop model ps
                   (preds @
                    [\<lparr>res_name = name p,
                      res_prediction = (if predVal > 0.5 then ''Reorder'' else ''No Reorder''),
                      res_stock = stock p,
                      avgSales = average_weekly_sales p,
                      leadTime = lead_time p,
                      res_reorder_point = reorderPoint\<rparr>])
                   w4))"

text \<open>
  \<^verbatim>\<open>
  const handlePredict = async () => {
      if (products.length === 0) return;
      setPredicting(true);
      const trainingInputs = ...;
      const trainingOutputs = ...;
      const trainXs = tf.tensor2d(trainingInputs);
      const trainYs = tf.tensor2d(trainingOutputs, [trainingOutputs.length, 1]);
      const model = tf.sequential();
      ...
      await model.fit(trainXs, trainYs, { epochs: 80, shuffle: true });
      trainXs.dispose();
      trainYs.dispose();
      const preds = [];
      for (const p of products) { ... }
      setPredictionResults(preds);
      setPredicting(false);
  };
  \<close>
  There is no \<open>try\<close> in the function: a throw ends it where it happens. The result is
  how the call ended and the world it leaves.
\<close>

datatype outcome = Returned | Threw exn

definition handlePredict :: "trainer \<Rightarrow> world \<Rightarrow> outcome \<times> world" where
  "handlePredict fit w =
     (if length (products w) = 0 then (Returned, w)
      else
        let w1 = w\<lparr>predicting := True\<rparr>;
            xs = trainingInputs (products w);
            ys = trainingOutputs (products w);
            (trainXs, w2) = alloc_tensor w1;
            (trainYs, w3) = alloc_tensor w2;
            w4 = w3\<lparr>calls := calls w3 @ [Fit xs ys 80 True]\<rparr>
        in case fit xs ys of
             Inl e \<Rightarrow> (Threw e, w4)
           | Inr model \<Rightarrow>
               (let w5 = dispose trainXs w4;
                    w6 = dispose trainYs w5
                in case predict_loop model (products w) [] w6 of
                     (Inl e, w7) \<Rightarrow> (Threw e, w7)
                   | (Inr preds, w7) \<Rightarrow>
                       (Returned, w7\<lparr>predictionResults := preds, predicting := False\<rparr>)))"

subsection \<open>The states the component reaches\<close>

text \<open>
  The fetch is started once, by the effect with the empty dependency list, and settles
  once, while \<open>loading\<close> holds. The Predict button is rendered when the component is
  neither loading nor showing an error, and is disabled while \<open>predicting\<close> holds.
\<close>

definition can_click :: "world \<Rightarrow> bool" where
  "can_click w = (\<not> loading w \<and> error w = None \<and> \<not> predicting w)"

inductive reachable :: "world \<Rightarrow> bool" where
  mounted: "reachable init"
| fetched: "reachable w \<Longrightarrow> loading w \<Longrightarrow> reachable (fetch_then data w)"
| fetch_failed: "reachable w \<Longrightarrow> loading w \<Longrightarrow> reachable (fetch_catch message w)"
| clicked: "reachable w \<Longrightarrow> can_click w \<Longrightarrow> reachable (snd (handlePredict fit w))"

text \<open>
  While the catalogue is empty no run has started and none has stored results, and the
  catalogue is empty while the fetch has not settled.
\<close>

definition idle_when_empty :: "world \<Rightarrow> bool" where
  "idle_when_empty w =
     ((products w = [] \<longrightarrow> \<not> predicting w \<and> predictionResults w = []) \<and>
      (loading w \<longrightarrow> products w = []))"

subsection \<open>Example inputs\<close>

definition widget :: product where
  "widget = \<lparr>name = ''Widget'', stock = Num 10, average_weekly_sales = Num 7, lead_time = Num 2\<rparr>"

definition gadget :: product where
  "gadget = \<lparr>name = ''Gadget'', stock = Num 21, average_weekly_sales = Num 7, lead_time = Num 5\<rparr>"

text \<open>A record whose \<open>stock\<close> key is absent.\<close>

definition unstocked :: product where
  "unstocked = \<lparr>name = ''Unstocked'', stock = Undefined, average_weekly_sales = Num 7, lead_time = Num 2\<rparr>"

text \<open>
  Products on which rounding shows: the sales \<open>0.7\<close> of Fractional are the binary64
  value nearest to \<open>7/10\<close>, and the sales of Tiny are the least positive number,
  \<open>5e-324\<close>.
\<close>

definition fractional :: product where
  "fractional = \<lparr>name = ''Fractional'', stock = Num 7, average_weekly_sales = round64 (7 / 10),
                  lead_time = Num 10\<rparr>"

definition nine :: product where
  "nine = \<lparr>name = ''Nine'', stock = Num 9, average_weekly_sales = Num 9, lead_time = Num 6\<rparr>"

definition tiny :: product where
  "tiny = \<lparr>name = ''Tiny'', stock = Num 0, average_weekly_sales = Num least_positive,
            lead_time = Num 1\<rparr>"

text \<open>A product that does not sell and has no stock.\<close>

definition idle_item :: product where
  "idle_item = \<lparr>name = ''Idle'', stock = Num 0, average_weekly_sales = Num 0, lead_time = Num 30\<rparr>"

text \<open>
  A model that answers \<open>0.9\<close> for a stock of at most 14 and \<open>0.1\<close> above, and whose
  inference fails on a row that does not start with a number; a trainer that returns it,
  and a trainer that throws.
\<close>

definition threshold_model :: model where
  "threshold_model row =
     (case row of
        Num s # rest \<Rightarrow> Inr (if s \<le> 14 then 9 / 10 else 1 / 10)
      | _ \<Rightarrow> Inl (Thrown ''not a number''))"

definition fit_ok :: trainer where
  "fit_ok xs ys = Inr threshold_model"

definition fit_throws :: trainer where
  "fit_throws xs ys = Inl (Thrown ''fit failed'')"

text \<open>
  The catalogue loaded with Widget and Gadget; the same while a run is under way; and
  the catalogue loaded with nothing.
\<close>

definition loaded :: world where
  "loaded = fetch_then [widget, gadget] init"

definition busy :: world where
  "busy = loaded\<lparr>predicting := True\<rparr>"

definition loaded_empty :: world where
  "loaded_empty = fetch_then [] init"

text \<open>No allocated tensor has an identifier that is still to be handed out.\<close>

definition fresh_ids :: "world \<Rightarrow> bool" where
  "fresh_ids w = list_all (\<lambda>t. t < next_id w) (live w)"

section \<open>Properties\<close>

subsection \<open>Rounding\<close>

lemma expo_search_numeral [simp]:
  "expo_search (numeral n) e a =
     (if 2 powi (e + 2 ^ pred_numeral n) \<le> a
      then expo_search (pred_numeral n) (e + 2 ^ pred_numeral n) a
      else expo_search (pred_numeral n) e a)"
  by (simp add: numeral_eq_Suc)

text \<open>The search returns the exponent of the binade of \<open>a\<close>.\<close>

lemma expo_search_bounds:
  "2 powi e \<le> a \<Longrightarrow> a < 2 powi (e + 2 ^ k) \<Longrightarrow>
     2 powi (expo_search k e a) \<le> a \<and> a < 2 powi (expo_search k e a + 1)"
proof (induction k arbitrary: e)
  case 0
  then show ?case by simp
next
  case (Suc k)
  show ?case
  proof (cases "2 powi (e + 2 ^ k) \<le> a")
    case True
    from Suc.prems(2) have "a < 2 powi (e + 2 ^ k + 2 ^ k)"
      by (simp add: algebra_simps)
    from Suc.IH [OF True this] True show ?thesis by simp
  next
    case False
    then have "a < 2 powi (e + 2 ^ k)" by simp
    from Suc.IH [OF Suc.prems(1) this] False show ?thesis by simp
  qed
qed

lemma expo_search_below: "a < 2 powi e \<Longrightarrow> expo_search k e a = e"
proof (induction k)
  case 0
  show ?case by simp
next
  case (Suc k)
  have "(2::real) powi e \<le> 2 powi (e + 2 ^ k)"
    by (rule power_int_increasing) simp_all
  with Suc show ?case by simp
qed

lemma expo_normal:
  assumes "2 powi (- 1022) \<le> a" and "a < 2 powi 1026"
  shows "2 powi (expo a) \<le> a \<and> a < 2 powi (expo a + 1)"
  unfolding expo_def using expo_search_bounds [of "- 1022" a 11] assms by simp

lemma expo_subnormal: "a < 2 powi (- 1022) \<Longrightarrow> expo a = - 1022"
  unfolding expo_def by (rule expo_search_below)

text \<open>Rounding moves a magnitude by at most half a unit in the last place.\<close>

lemma round_half_even_near: "\<bar>of_int (round_half_even q) - q\<bar> \<le> 1 / 2"
  unfolding round_half_even_def Let_def by (auto split: if_splits; linarith)

lemma round_mag_near: "\<bar>round_mag a - a\<bar> \<le> 2 powi (expo a - 52) / 2"
proof -
  define ulp :: real where "ulp = 2 powi (expo a - 52)"
  have pos: "0 < ulp" by (simp add: ulp_def)
  have "\<bar>of_int (round_half_even (a / ulp)) - a / ulp\<bar> * ulp \<le> 1 / 2 * ulp"
    using round_half_even_near [of "a / ulp"] pos by (simp add: mult_right_mono)
  moreover have "\<bar>of_int (round_half_even (a / ulp)) - a / ulp\<bar> * ulp
      = \<bar>of_int (round_half_even (a / ulp)) * ulp - a\<bar>"
  proof -
    have "\<bar>of_int (round_half_even (a / ulp)) - a / ulp\<bar> * ulp
        = \<bar>(of_int (round_half_even (a / ulp)) - a / ulp) * ulp\<bar>"
      using pos by (simp add: abs_mult)
    also have "(of_int (round_half_even (a / ulp)) - a / ulp) * ulp
        = of_int (round_half_even (a / ulp)) * ulp - a"
      using pos by (simp add: field_simps)
    finally show ?thesis .
  qed
  ultimately show ?thesis
    by (simp add: round_mag_def ulp_def [symmetric] Let_def)
qed

lemma round_half_even_nonneg: "0 \<le> q \<Longrightarrow> 0 \<le> round_half_even q"
  unfolding round_half_even_def Let_def by (auto split: if_splits; linarith)

lemma round_mag_nonneg: "0 \<le> a \<Longrightarrow> 0 \<le> round_mag a"
  by (simp add: round_mag_def Let_def round_half_even_nonneg)

lemma round64_number: "round64 x \<noteq> Undefined \<and> round64 x \<noteq> Null \<and> round64 x \<noteq> NaN"
  by (simp add: round64_def Let_def)

lemma round64_non_negative: "0 \<le> x \<Longrightarrow> non_negative (round64 x)"
  using round_mag_nonneg [of "\<bar>x\<bar>"] by (simp add: round64_def Let_def non_negative_def)

lemma least_positive_pos [simp]: "0 < least_positive" "0 \<le> least_positive" "least_positive \<noteq> 0"
  by (simp_all add: least_positive_def)

lemmas f64_simps = js_mul_def js_div_def js_floor_def js_le_def or_zero_def round64_def
  round_mag_def round_half_even_def expo_def signed_zero_def signed_inf_def Let_def

text \<open>Values to compare with a binary64 implementation.\<close>

lemma round64_examples:
  "round64 14 = Num 14"
  "round64 (7 / 10) = Num (3152519739159347 / 4503599627370496)"
  "round64 (9 / 7) = Num (5790342378047781 / 4503599627370496)"
  "round64 least_positive = Num least_positive"
  "round64 (least_positive / 2) = Num 0"
  "round64 (3 * least_positive / 2) = Num (2 * least_positive)"
  "round64 (least_positive / 7) = Num 0"
  "round64 (- least_positive / 7) = NegZero"
  "round64 (10 ^ 309) = PosInf"
  "round64 (2 powi 1024 - 2 powi 970) = PosInf"
  "round64 (2 powi 1024 - 2 powi 971) = Num (2 powi 1024 - 2 powi 971)"
  by (simp_all add: f64_simps least_positive_def)

lemma js_mul_examples:
  "js_mul (round64 (7 / 10)) (Num 10) = Num 7"
  "js_mul (round64 (1 / 10)) (Num 3) = Num (5404319552844596 / 18014398509481984)"
  "js_mul (round64 (1 / 10)) (Num 3) \<noteq> round64 (3 / 10)"
  "js_mul (Num 94906267) (Num 94906267) = Num 9007199515875288"
  "js_mul (round64 (10 ^ 308)) (Num 10) = PosInf"
  "js_mul PosInf (Num 0) = NaN"
  "js_mul (Num (- 1)) (Num 0) = NegZero"
  by (simp_all add: f64_simps)

subsection \<open>Coercion\<close>

lemma num_or_0_simps [simp]:
  "num_or_0 (Num r) = Num r" "num_or_0 Undefined = Num 0" "num_or_0 Null = Num 0"
  "num_or_0 NegZero = Num 0" "num_or_0 NaN = Num 0"
  "num_or_0 PosInf = PosInf" "num_or_0 NegInf = NegInf"
  by (simp_all add: num_or_0_def)

lemma missing_simps [simp]:
  "missing (Num r) = False" "missing Undefined = True" "missing Null = True"
  "missing NegZero = False" "missing NaN = False" "missing PosInf = False" "missing NegInf = False"
  by (simp_all add: missing_def)

text \<open>\<open>x || 0\<close> is the field's number, or \<open>0\<close> when the field is missing.\<close>

lemma or_zero_num_or_0: "or_zero v = num_or_0 v"
  by (cases v) (simp_all add: or_zero_def)

lemma is_zero_num_or_0: "is_zero (num_or_0 v) = zero_or_missing v"
  by (cases v) (simp_all add: zero_or_missing_def)

lemma num_or_0_number: "num_or_0 v \<noteq> Undefined \<and> num_or_0 v \<noteq> Null \<and> num_or_0 v \<noteq> NaN
    \<and> num_or_0 v \<noteq> NegZero"
  by (cases v) simp_all

lemma to_number_num_or_0 [simp]: "to_number (num_or_0 v) = num_or_0 v"
  by (cases v) simp_all

subsection \<open>Signs\<close>

lemma non_negative_simps [simp]:
  "non_negative (Num r) = (0 \<le> r)" "non_negative PosInf" "\<not> non_negative NegZero"
  "\<not> non_negative NegInf" "\<not> non_negative NaN" "\<not> non_negative Undefined"
  "\<not> non_negative Null"
  by (simp_all add: non_negative_def)

lemma js_mul_non_negative:
  assumes "non_negative x" and "non_negative y"
  shows "js_mul x y = NaN \<or> non_negative (js_mul x y)"
proof -
  have r: "0 \<le> a \<Longrightarrow> 0 \<le> b \<Longrightarrow> non_negative (round64 (a * b))" for a b :: real
    by (rule round64_non_negative) simp
  from assms r show ?thesis
    by (cases x; cases y) (auto simp: js_mul_def signed_zero_def signed_inf_def Let_def)
qed

lemma js_div_non_negative:
  assumes "non_negative x" and "non_negative y"
  shows "js_div x y = NaN \<or> non_negative (js_div x y)"
proof -
  have r: "0 \<le> a \<Longrightarrow> 0 \<le> b \<Longrightarrow> non_negative (round64 (a / b))" for a b :: real
    by (rule round64_non_negative) simp
  from assms r show ?thesis
    by (cases x; cases y) (auto simp: js_div_def signed_zero_def signed_inf_def Let_def)
qed

lemma js_floor_non_negative: "non_negative x \<Longrightarrow> non_negative (js_floor x)"
  by (cases x) (simp_all add: js_floor_def)

lemma js_div_NaN [simp]: "js_div x NaN = NaN"
  by (simp add: js_div_def)

lemma js_floor_NaN [simp]: "js_floor NaN = NaN"
  by (simp add: js_floor_def)

lemma js_mul_number: "is_number (js_mul x y)"
  using round64_number [of "fin_val (to_number x) * fin_val (to_number y)"]
  by (simp add: js_mul_def is_number_def signed_zero_def signed_inf_def Let_def)

lemma js_div_number: "is_number (js_div x y)"
  using round64_number [of "fin_val (to_number x) / fin_val (to_number y)"]
  by (simp add: js_div_def is_number_def signed_zero_def signed_inf_def Let_def)

lemma js_floor_number: "is_number x \<Longrightarrow> is_number (js_floor x)"
  by (cases x) (simp_all add: js_floor_def is_number_def)

subsection \<open>Metrics and labels\<close>

lemma calculateReorderPoint_eq:
  "calculateReorderPoint a l = js_mul (num_or_0 a) (num_or_0 l)"
  by (simp add: calculateReorderPoint_def or_zero_num_or_0)

lemma calculateDaysToReplenish_eq:
  "calculateDaysToReplenish s a =
     (if zero_or_missing a then Num 999
      else js_floor (js_div (num_or_0 s) (js_div (num_or_0 a) (Num 7))))"
  by (simp add: calculateDaysToReplenish_def or_zero_num_or_0 is_zero_num_or_0)

text \<open>The metrics of the example products.\<close>

lemma reorder_point_examples:
  "calculateReorderPoint (Num 7) (Num 2) = Num 14"
  "calculateReorderPoint (Num 7) (Num 5) = Num 35"
  "calculateReorderPoint (round64 (7 / 10)) (Num 10) = Num 7"
  "calculateReorderPoint (Num (- 1)) (Num 1) = Num (- 1)"
  by (simp_all add: calculateReorderPoint_eq f64_simps)

lemma days_examples:
  "calculateDaysToReplenish (Num 21) (Num 7) = Num 21"
  "calculateDaysToReplenish (Num 10) (Num 7) = Num 10"
  "calculateDaysToReplenish (Num 9) (Num 9) = Num 6"
  "calculateDaysToReplenish (Num 7) (Num (- 7)) = Num (- 7)"
  "calculateDaysToReplenish (Num 0) (Num least_positive) = NaN"
  "calculateDaysToReplenish (Num 1) (Num least_positive) = PosInf"
  by (simp_all add: calculateDaysToReplenish_eq zero_or_missing_def f64_simps least_positive_def)

text \<open>
  C1. In the reorder-point version, the metric of every record of the catalogue is
  (average_weekly_sales or 0) * (lead_time or 0), the product being JavaScript's, and its
  training label is 1 if \<open>stock <= metric\<close> and 0 otherwise. The comparison is
  JavaScript's; between two finite numbers it is the order of the numbers.
\<close>

theorem reorder_point_metric_and_label:
  fixes ps :: "'a product_scheme list"
  assumes "i < length ps"
  shows "calculateReorderPoint (average_weekly_sales (ps ! i)) (lead_time (ps ! i))
           = js_mul (num_or_0 (average_weekly_sales (ps ! i))) (num_or_0 (lead_time (ps ! i)))
       \<and> trainingOutputs ps ! i
           = (if js_le (stock (ps ! i))
                   (js_mul (num_or_0 (average_weekly_sales (ps ! i))) (num_or_0 (lead_time (ps ! i))))
              then 1 else 0)
       \<and> (\<forall>s m. stock (ps ! i) = Num s
               \<and> js_mul (num_or_0 (average_weekly_sales (ps ! i))) (num_or_0 (lead_time (ps ! i)))
                   = Num m \<longrightarrow>
             trainingOutputs ps ! i = (if s \<le> m then 1 else 0))
       \<and> (\<forall>a l. average_weekly_sales (ps ! i) = Num a \<and> lead_time (ps ! i) = Num l
               \<and> a \<noteq> 0 \<and> l \<noteq> 0 \<longrightarrow>
             calculateReorderPoint (average_weekly_sales (ps ! i)) (lead_time (ps ! i))
               = round64 (a * l))"
  using assms
  by (auto simp: trainingOutputs_def calculateReorderPoint_eq js_le_def js_mul_def)

theorem reorder_point_metric_and_label_witness:
  "calculateReorderPoint (average_weekly_sales widget) (lead_time widget) = Num 14
   \<and> trainingOutputs [widget] ! 0 = 1
   \<and> calculateReorderPoint (average_weekly_sales fractional) (lead_time fractional) = Num 7
   \<and> trainingOutputs [fractional] ! 0 = 1"
proof -
  have w: "js_mul (num_or_0 (average_weekly_sales widget)) (num_or_0 (lead_time widget)) = Num 14"
    using reorder_point_examples(1) by (simp add: widget_def calculateReorderPoint_eq)
  have f: "js_mul (num_or_0 (average_weekly_sales fractional)) (num_or_0 (lead_time fractional))
             = Num 7"
    using reorder_point_examples(3) by (simp add: fractional_def calculateReorderPoint_eq)
  have "calculateReorderPoint (average_weekly_sales widget) (lead_time widget) = Num 14
      \<and> trainingOutputs [widget] ! 0 = 1"
    using reorder_point_metric_and_label [of 0 "[widget]"] w
    by (simp add: js_le_def) (simp add: widget_def)
  moreover have "calculateReorderPoint (average_weekly_sales fractional) (lead_time fractional) = Num 7
      \<and> trainingOutputs [fractional] ! 0 = 1"
    using reorder_point_metric_and_label [of 0 "[fractional]"] f
    by (simp add: js_le_def) (simp add: fractional_def)
  ultimately show ?thesis by simp
qed

text \<open>
  C2. In the days-to-replenish version, the metric of a record whose
  average_weekly_sales is a nonzero number \<open>a\<close> is floor(stock / (a / 7)), a missing
  stock counting as 0 and the divisions being JavaScript's (the quotient \<open>a / 7\<close> is
  rounded before it divides the stock); when average_weekly_sales is 0 or missing the
  metric is 999.
\<close>

theorem days_to_replenish_metric:
  "((\<exists>a. average_weekly_sales p = Num a \<and> a \<noteq> 0) \<or> average_weekly_sales p = PosInf
      \<or> average_weekly_sales p = NegInf \<longrightarrow>
      calculateDaysToReplenish (stock p) (average_weekly_sales p)
        = js_floor (js_div (num_or_0 (stock p)) (js_div (average_weekly_sales p) (Num 7))))
   \<and> (\<forall>a. average_weekly_sales p = Num a \<and> a \<noteq> 0 \<longrightarrow>
      calculateDaysToReplenish (stock p) (average_weekly_sales p)
        = js_floor (js_div (num_or_0 (stock p)) (round64 (a / 7))))
   \<and> (zero_or_missing (average_weekly_sales p) \<longrightarrow>
      calculateDaysToReplenish (stock p) (average_weekly_sales p) = Num 999)"
  by (cases "average_weekly_sales p")
    (simp_all add: calculateDaysToReplenish_eq zero_or_missing_def js_div_def)

theorem days_to_replenish_metric_witness:
  "calculateDaysToReplenish (stock gadget) (average_weekly_sales gadget) = Num 21
   \<and> calculateDaysToReplenish (stock nine) (average_weekly_sales nine) = Num 6
   \<and> calculateDaysToReplenish (stock tiny) (average_weekly_sales tiny) = NaN
   \<and> calculateDaysToReplenish (stock idle_item) (average_weekly_sales idle_item) = Num 999"
proof -
  have "calculateDaysToReplenish (stock gadget) (average_weekly_sales gadget)
      = js_floor (js_div (Num 21) (js_div (Num 7) (Num 7)))"
    using days_to_replenish_metric [of gadget, THEN conjunct1] by (simp add: gadget_def)
  then have g: "calculateDaysToReplenish (stock gadget) (average_weekly_sales gadget) = Num 21"
    by (simp add: f64_simps)
  have "calculateDaysToReplenish (stock nine) (average_weekly_sales nine)
      = js_floor (js_div (Num 9) (round64 (9 / 7)))"
    using days_to_replenish_metric [of nine, THEN conjunct2, THEN conjunct1]
    by (simp add: nine_def)
  then have n: "calculateDaysToReplenish (stock nine) (average_weekly_sales nine) = Num 6"
    by (simp add: f64_simps)
  have "calculateDaysToReplenish (stock tiny) (average_weekly_sales tiny)
      = js_floor (js_div (Num 0) (round64 (least_positive / 7)))"
    using days_to_replenish_metric [of tiny, THEN conjunct2, THEN conjunct1]
    by (simp add: tiny_def)
  then have t: "calculateDaysToReplenish (stock tiny) (average_weekly_sales tiny) = NaN"
    by (simp add: round64_examples js_div_def js_floor_def)
  have i: "calculateDaysToReplenish (stock idle_item) (average_weekly_sales idle_item) = Num 999"
    using days_to_replenish_metric [of idle_item] by (simp add: idle_item_def zero_or_missing_def)
  from g n t i show ?thesis by simp
qed

text \<open>
  C3. In the days-to-replenish version, the training label of every record is 1 if the
  metric is at most lead_time (or 0) and 0 otherwise, the metric being 999 when
  average_weekly_sales is 0 or missing and floor(stock / (average_weekly_sales / 7))
  otherwise; the record Gadget (stock 21, average_weekly_sales 7, lead_time 5) has
  metric 21 and label 0.
\<close>

theorem days_label:
  fixes ps :: "'a product_scheme list"
  shows "(\<forall>i<length ps.
           trainingOutputs_days ps ! i
             = (if js_le (calculateDaysToReplenish (stock (ps ! i)) (average_weekly_sales (ps ! i)))
                     (num_or_0 (lead_time (ps ! i)))
                then 1 else 0)
         \<and> trainingOutputs_days ps ! i
             = (if js_le
                     (if zero_or_missing (average_weekly_sales (ps ! i)) then Num 999
                      else js_floor (js_div (num_or_0 (stock (ps ! i)))
                             (js_div (num_or_0 (average_weekly_sales (ps ! i))) (Num 7))))
                     (num_or_0 (lead_time (ps ! i)))
                then 1 else 0))
       \<and> calculateDaysToReplenish (stock gadget) (average_weekly_sales gadget) = Num 21
       \<and> trainingOutputs_days [gadget] = [0]"
proof -
  have g: "calculateDaysToReplenish (stock gadget) (average_weekly_sales gadget) = Num 21"
    using days_examples(1) by (simp add: gadget_def)
  have "trainingOutputs_days [gadget] = [0]"
    using g by (simp add: trainingOutputs_days_def or_zero_num_or_0 js_le_def) (simp add: gadget_def)
  with g show ?thesis
    by (simp add: trainingOutputs_days_def or_zero_num_or_0 calculateDaysToReplenish_eq)
qed

theorem days_label_witness:
  "trainingOutputs_days [nine] ! 0 = 1
   \<and> trainingOutputs_days [tiny] ! 0 = 0
   \<and> calculateDaysToReplenish (stock gadget) (average_weekly_sales gadget) = Num 21
   \<and> trainingOutputs_days [gadget] = [0]"
proof -
  have n: "calculateDaysToReplenish (stock nine) (average_weekly_sales nine) = Num 6"
    using days_examples(3) by (simp add: nine_def)
  have t: "calculateDaysToReplenish (stock tiny) (average_weekly_sales tiny) = NaN"
    using days_examples(5) by (simp add: tiny_def)
  have "trainingOutputs_days [nine] ! 0 = 1"
    using days_label [of "[nine]"] n by (simp add: js_le_def) (simp add: nine_def)
  moreover have "trainingOutputs_days [tiny] ! 0 = 0"
    using days_label [of "[tiny]"] t by (simp add: js_le_def)
  ultimately show ?thesis
    using days_label [of "[]"] by simp
qed

text \<open>
  C10. In the days-to-replenish version, a record whose average_weekly_sales is 0 or
  missing has metric 999, so its label is 1 exactly when lead_time (or 0) is at least
  999: it is 0 for every lead time below 999, whatever the stock is.
\<close>

theorem zero_sales_label:
  fixes ps :: "'a product_scheme list"
  assumes "i < length ps"
    and "zero_or_missing (average_weekly_sales (ps ! i))"
  shows "calculateDaysToReplenish (stock (ps ! i)) (average_weekly_sales (ps ! i)) = Num 999
       \<and> (trainingOutputs_days ps ! i = 1 \<longleftrightarrow> js_le (Num 999) (num_or_0 (lead_time (ps ! i))))
       \<and> (\<forall>r. lead_time (ps ! i) = Num r \<longrightarrow> (trainingOutputs_days ps ! i = 1 \<longleftrightarrow> 999 \<le> r))
       \<and> (\<forall>r. lead_time (ps ! i) = Num r \<and> r < 999 \<longrightarrow> trainingOutputs_days ps ! i = 0)
       \<and> (missing (lead_time (ps ! i)) \<longrightarrow> trainingOutputs_days ps ! i = 0)
       \<and> (\<forall>s. trainingOutputs_days (ps[i := (ps ! i)\<lparr>stock := s\<rparr>]) ! i
                = trainingOutputs_days ps ! i)"
  using assms
  by (cases "lead_time (ps ! i)")
    (simp_all add: trainingOutputs_days_def calculateDaysToReplenish_eq or_zero_num_or_0 js_le_def)

theorem zero_sales_label_witness:
  "calculateDaysToReplenish (stock idle_item) (average_weekly_sales idle_item) = Num 999
   \<and> trainingOutputs_days [idle_item] ! 0 = 0"
  using zero_sales_label [of 0 "[idle_item]"]
  by (simp add: idle_item_def zero_or_missing_def)

text \<open>
  C7, as stated, fails. The reorder point of average sales \<open>-1\<close> and lead time \<open>1\<close> is
  \<open>-1\<close>, and a stock of \<open>7\<close> with average sales \<open>-7\<close> lasts \<open>-7\<close> days. And with
  inputs that are not negative: for no stock and average sales \<open>5e-324\<close>, the least positive number, the daily
  sales round to \<open>0\<close>, and \<open>0 / 0\<close> is \<open>NaN\<close>.
\<close>

theorem metric_negative_counterexample:
  "calculateReorderPoint (Num (- 1)) (Num 1) = Num (- 1)
   \<and> calculateDaysToReplenish (Num 7) (Num (- 7)) = Num (- 7)
   \<and> non_negative (Num 0) \<and> non_negative (Num least_positive)
   \<and> calculateDaysToReplenish (Num 0) (Num least_positive) = NaN"
  by (simp add: reorder_point_examples days_examples)

text \<open>
  C7, amended. Both metric functions return a number for every input, and for inputs
  that are not negative (a missing one counting as 0) the number is never negative: it
  is a non-negative number (\<open>Infinity\<close> included) or \<open>NaN\<close>. Sales that are 0 or
  missing give the sentinel 999.
\<close>

theorem metric_nonnegative:
  "is_number (calculateReorderPoint a l)
   \<and> is_number (calculateDaysToReplenish s a)
   \<and> (non_negative (num_or_0 a) \<and> non_negative (num_or_0 l) \<longrightarrow>
        calculateReorderPoint a l = NaN \<or> non_negative (calculateReorderPoint a l))
   \<and> (non_negative (num_or_0 s) \<and> non_negative (num_or_0 a) \<longrightarrow>
        calculateDaysToReplenish s a = NaN \<or> non_negative (calculateDaysToReplenish s a))
   \<and> (zero_or_missing a \<longrightarrow> calculateDaysToReplenish s a = Num 999)"
proof -
  have days: "calculateDaysToReplenish s a = NaN \<or> non_negative (calculateDaysToReplenish s a)"
    if s: "non_negative (num_or_0 s)" and a: "non_negative (num_or_0 a)"
  proof (cases "zero_or_missing a")
    case True
    then show ?thesis by (simp add: calculateDaysToReplenish_eq)
  next
    case False
    from js_div_non_negative [OF a, of "Num 7"]
    consider "js_div (num_or_0 a) (Num 7) = NaN" | "non_negative (js_div (num_or_0 a) (Num 7))"
      by auto
    then show ?thesis
    proof cases
      case 1
      with False show ?thesis by (simp add: calculateDaysToReplenish_eq)
    next
      case 2
      from js_div_non_negative [OF s 2] js_floor_non_negative False show ?thesis
        by (auto simp: calculateDaysToReplenish_eq)
    qed
  qed
  have "is_number (calculateDaysToReplenish s a)"
    by (simp add: calculateDaysToReplenish_eq js_floor_number js_div_number) (simp add: is_number_def)
  with days js_mul_non_negative [of "num_or_0 a" "num_or_0 l"] show ?thesis
    by (simp add: calculateReorderPoint_eq js_mul_number calculateDaysToReplenish_eq)
qed

theorem metric_nonnegative_witness:
  "non_negative (calculateReorderPoint (Num 7) (Num 2))
   \<and> non_negative (calculateDaysToReplenish (Num 21) (Num 7))
   \<and> non_negative (calculateDaysToReplenish (Num 1) (Num least_positive))
   \<and> calculateDaysToReplenish (Num 21) Null = Num 999"
  using metric_nonnegative [of "Num 7" "Num 2" "Num 21"] metric_nonnegative [of Null "Num 2" "Num 21"]
    metric_nonnegative [of "Num least_positive" "Num 2" "Num 1"]
  by (simp add: zero_or_missing_def reorder_point_examples days_examples)

subsection \<open>The training sets\<close>

text \<open>
  C4, as stated, fails: the row of a record whose stock is missing starts with the
  missing value, not with 0.
\<close>

theorem stock_not_coerced_counterexample:
  "trainingInputs [unstocked] = [[Undefined, Num 7, Num 2]]
   \<and> trainingInputs [unstocked] \<noteq> [[Num 0, Num 7, Num 2]]"
  by (simp add: trainingInputs_def featureRow_def unstocked_def or_zero_def)

text \<open>
  C4, amended. For a catalogue of N records the feature matrix has N rows in catalogue
  order, row i being [stock_i, average_weekly_sales_i or 0, lead_time_i or 0] with the
  stock as the record has it, and the label vector (of either version) has length N.
\<close>

theorem dataset_shape:
  fixes ps :: "'a product_scheme list"
  shows "length (trainingInputs ps) = length ps
       \<and> length (trainingOutputs ps) = length ps
       \<and> length (trainingOutputs_days ps) = length ps
       \<and> (\<forall>i<length ps.
            trainingInputs ps ! i
              = [stock (ps ! i), num_or_0 (average_weekly_sales (ps ! i)),
                 num_or_0 (lead_time (ps ! i))])"
  by (simp add: trainingInputs_def trainingOutputs_def trainingOutputs_days_def featureRow_def
      or_zero_num_or_0)

theorem dataset_shape_witness:
  "length (trainingInputs [widget, unstocked]) = 2
   \<and> length (trainingOutputs [widget, unstocked]) = 2
   \<and> trainingInputs [widget, unstocked] ! 1 = [Undefined, Num 7, Num 2]"
  using dataset_shape [of "[widget, unstocked]"]
  by (simp add: widget_def unstocked_def)

subsection \<open>The inference loop\<close>

lemmas run_simps = handlePredict_def loaded_def busy_def loaded_empty_def fetch_then_def init_def
  widget_def gadget_def fit_ok_def fit_throws_def threshold_model_def
  trainingInputs_def trainingOutputs_def featureRow_def reorder_point_examples js_le_def or_zero_def
  alloc_tensor_def dispose_def Let_def

lemma dispose_frame [simp]:
  "products (dispose t w) = products w" "predictionResults (dispose t w) = predictionResults w"
  "loading (dispose t w) = loading w" "predicting (dispose t w) = predicting w"
  "error (dispose t w) = error w" "calls (dispose t w) = calls w"
  by (simp_all add: dispose_def)

text \<open>The loop touches the tensors and the call log only.\<close>

lemma predict_loop_frame:
  "predict_loop model ps preds w = (r, w') \<Longrightarrow>
     products w' = products w \<and> predictionResults w' = predictionResults w \<and>
     loading w' = loading w \<and> predicting w' = predicting w \<and> error w' = error w"
proof (induction ps arbitrary: preds w)
  case Nil
  then show ?case by simp
next
  case (Cons p ps)
  show ?case
  proof (cases "model (featureRow p)")
    case (Inl e)
    with Cons.prems show ?thesis
      by (auto simp: alloc_tensor_def)
  next
    case (Inr q)
    with Cons.prems Cons.IH show ?thesis
      by (fastforce simp: alloc_tensor_def dispose_def Let_def)
  qed
qed

lemma predict_loop_calls:
  "predict_loop model ps preds w = (r, w') \<Longrightarrow> \<exists>cs. calls w' = calls w @ cs"
proof (induction ps arbitrary: preds w)
  case Nil
  then show ?case by simp
next
  case (Cons p ps)
  show ?case
  proof (cases "model (featureRow p)")
    case (Inl e)
    with Cons.prems show ?thesis
      by (auto simp: alloc_tensor_def)
  next
    case (Inr q)
    with Cons.prems Cons.IH show ?thesis
      by (fastforce simp: alloc_tensor_def dispose_def Let_def)
  qed
qed

text \<open>
  When no inference throws, the loop appends one result per product, in the order of the
  products, to what \<open>preds\<close> held.
\<close>

lemma predict_loop_map:
  assumes "\<forall>p\<in>set ps. \<exists>q. model (featureRow p) = Inr q"
  shows "\<exists>w'. predict_loop model ps preds w =
           (Inr (preds @ map (\<lambda>p. \<lparr>res_name = name p,
                     res_prediction =
                       (if projr (model (featureRow p)) > 0.5 then ''Reorder'' else ''No Reorder''),
                     res_stock = stock p, avgSales = average_weekly_sales p,
                     leadTime = lead_time p,
                     res_reorder_point =
                       calculateReorderPoint (average_weekly_sales p) (lead_time p)\<rparr>) ps), w')"
  using assms
proof (induction ps arbitrary: preds w)
  case Nil
  then show ?case by simp
next
  case (Cons p ps)
  from Cons.prems obtain q where q: "model (featureRow p) = Inr q"
    by auto
  from Cons.prems have rest: "\<forall>p\<in>set ps. \<exists>q. model (featureRow p) = Inr q"
    by simp
  obtain r w4 where step: "predict_loop model (p # ps) preds w = predict_loop model ps (preds @ [r]) w4"
    and r: "r = \<lparr>res_name = name p,
                 res_prediction =
                   (if projr (model (featureRow p)) > 0.5 then ''Reorder'' else ''No Reorder''),
                 res_stock = stock p, avgSales = average_weekly_sales p,
                 leadTime = lead_time p,
                 res_reorder_point =
                   calculateReorderPoint (average_weekly_sales p) (lead_time p)\<rparr>"
    using q by (simp add: alloc_tensor_def Let_def)
  from Cons.IH [OF rest, of "preds @ [r]" w4] step r show ?case
    by simp
qed

subsection \<open>A run of handlePredict\<close>

lemma handlePredict_empty:
  "products w = [] \<Longrightarrow> handlePredict fit w = (Returned, w)"
  by (simp add: handlePredict_def)

lemma handlePredict_frame:
  "handlePredict fit w = (out, w') \<Longrightarrow>
     products w' = products w \<and> loading w' = loading w \<and> error w' = error w"
  by (auto simp: handlePredict_def alloc_tensor_def Let_def
      split: if_splits sum.splits prod.splits dest!: predict_loop_frame)

text \<open>
  A run on a catalogue that is not empty ends with \<open>predicting\<close> reset when it returns,
  and with \<open>predicting\<close> still set when training or an inference throws.
\<close>

lemma handlePredict_predicting:
  assumes "products w \<noteq> []" and "handlePredict fit w = (out, w')"
  shows "(out = Returned \<longrightarrow> \<not> predicting w') \<and> (\<forall>e. out = Threw e \<longrightarrow> predicting w')"
  using assms
  by (auto simp: handlePredict_def alloc_tensor_def Let_def
      split: if_splits sum.splits prod.splits dest!: predict_loop_frame)

lemma handlePredict_calls_fit:
  assumes "products w \<noteq> []" and "handlePredict fit w = (out, w')"
  shows "\<exists>cs. calls w' =
           calls w @ Fit (trainingInputs (products w)) (trainingOutputs (products w)) 80 True # cs"
  using assms
  by (auto simp: handlePredict_def alloc_tensor_def Let_def
      split: if_splits sum.splits prod.splits dest!: predict_loop_calls)

lemma threshold_model_row:
  "\<exists>q. threshold_model (Num s # rest) = Inr q"
  unfolding threshold_model_def by (simp del: divide_eq_eq_numeral1 eq_divide_eq_numeral1)

text \<open>
  C5. For a catalogue that is not empty and the model the trainer returned, when no
  inference throws, the run returns and stores one result per record, in the order of
  the catalogue: result i echoes the fields of record i with its reorder point, and its
  decision is Reorder if the value the model gives for the row of record i is above 0.5
  and No Reorder otherwise.
\<close>

theorem results_in_catalog_order:
  assumes "products w \<noteq> []"
    and "fit (trainingInputs (products w)) (trainingOutputs (products w)) = Inr model"
    and "\<forall>p\<in>set (products w). \<exists>q. model (featureRow p) = Inr q"
  shows "fst (handlePredict fit w) = Returned
       \<and> length (predictionResults (snd (handlePredict fit w))) = length (products w)
       \<and> (\<forall>i<length (products w).
            res_name (predictionResults (snd (handlePredict fit w)) ! i) = name (products w ! i)
          \<and> res_stock (predictionResults (snd (handlePredict fit w)) ! i) = stock (products w ! i)
          \<and> avgSales (predictionResults (snd (handlePredict fit w)) ! i)
              = average_weekly_sales (products w ! i)
          \<and> leadTime (predictionResults (snd (handlePredict fit w)) ! i) = lead_time (products w ! i)
          \<and> res_reorder_point (predictionResults (snd (handlePredict fit w)) ! i)
              = calculateReorderPoint (average_weekly_sales (products w ! i)) (lead_time (products w ! i))
          \<and> (\<forall>q. model (featureRow (products w ! i)) = Inr q \<longrightarrow>
                res_prediction (predictionResults (snd (handlePredict fit w)) ! i)
                  = (if q > 0.5 then ''Reorder'' else ''No Reorder'')))"
proof -
  define w6 where "w6 =
    dispose (Suc (next_id w)) (dispose (next_id w)
      (w\<lparr>predicting := True, live := live w @ [next_id w, Suc (next_id w)],
          next_id := Suc (Suc (next_id w)),
          calls := calls w @ [Fit (trainingInputs (products w)) (trainingOutputs (products w)) 80 True]\<rparr>))"
  from predict_loop_map [OF assms(3), of "[]" w6]
  obtain w7 where loop: "predict_loop model (products w) [] w6 =
      (Inr (map (\<lambda>p. \<lparr>res_name = name p,
                     res_prediction =
                       (if projr (model (featureRow p)) > 0.5 then ''Reorder'' else ''No Reorder''),
                     res_stock = stock p, avgSales = average_weekly_sales p,
                     leadTime = lead_time p,
                     res_reorder_point =
                       calculateReorderPoint (average_weekly_sales p) (lead_time p)\<rparr>) (products w)), w7)"
    by auto
  have run: "handlePredict fit w =
      (Returned, w7\<lparr>predictionResults := map (\<lambda>p. \<lparr>res_name = name p,
                     res_prediction =
                       (if projr (model (featureRow p)) > 0.5 then ''Reorder'' else ''No Reorder''),
                     res_stock = stock p, avgSales = average_weekly_sales p,
                     leadTime = lead_time p,
                     res_reorder_point =
                       calculateReorderPoint (average_weekly_sales p) (lead_time p)\<rparr>) (products w),
                   predicting := False\<rparr>)"
    using assms(1,2) loop
    by (simp add: handlePredict_def alloc_tensor_def Let_def w6_def)
  show ?thesis
    by (auto simp: run)
qed

theorem results_in_catalog_order_witness:
  "fst (handlePredict fit_ok loaded) = Returned
   \<and> map res_name (predictionResults (snd (handlePredict fit_ok loaded))) = [''Widget'', ''Gadget'']
   \<and> map res_prediction (predictionResults (snd (handlePredict fit_ok loaded)))
       = [''Reorder'', ''No Reorder'']"
proof -
  have ne: "products loaded \<noteq> []"
    by (simp add: loaded_def fetch_then_def)
  have tr: "fit_ok (trainingInputs (products loaded)) (trainingOutputs (products loaded))
              = Inr threshold_model"
    by (simp add: fit_ok_def)
  have ok: "\<forall>p\<in>set (products loaded). \<exists>q. threshold_model (featureRow p) = Inr q"
    by (simp add: loaded_def fetch_then_def widget_def gadget_def featureRow_def
        threshold_model_row)
  show ?thesis
    using results_in_catalog_order [of loaded fit_ok threshold_model, OF ne tr ok]
    by (simp add: run_simps)
qed

subsection \<open>The empty catalogue\<close>

lemma reachable_idle_when_empty: "reachable w \<Longrightarrow> idle_when_empty w"
proof (induction rule: reachable.induct)
  case mounted
  show ?case by (simp add: idle_when_empty_def init_def)
next
  case (fetched w data)
  then show ?case by (simp add: idle_when_empty_def fetch_then_def)
next
  case (fetch_failed w message)
  then show ?case by (simp add: idle_when_empty_def fetch_catch_def)
next
  case (clicked w fit)
  show ?case
  proof (cases "products w = []")
    case True
    with clicked.IH show ?thesis by (simp add: handlePredict_empty)
  next
    case False
    obtain out w' where run: "handlePredict fit w = (out, w')"
      by (cases "handlePredict fit w")
    from handlePredict_frame [OF run] False clicked.hyps(2)
    show ?thesis by (simp add: idle_when_empty_def run can_click_def)
  qed
qed

text \<open>
  C6. In every state the component reaches with an empty catalogue, handlePredict
  returns at once: it does not throw, it changes nothing and calls neither the trainer
  nor the model, the run state is and stays idle, and the result sequence is empty.
\<close>

theorem empty_catalog_noop:
  assumes "reachable w" and "products w = []"
  shows "handlePredict fit w = (Returned, w)
       \<and> calls (snd (handlePredict fit w)) = calls w
       \<and> predicting (snd (handlePredict fit w)) = False
       \<and> predictionResults (snd (handlePredict fit w)) = []"
  using reachable_idle_when_empty [OF assms(1)] assms(2)
  by (simp add: handlePredict_empty idle_when_empty_def)

theorem empty_catalog_noop_witness:
  "handlePredict fit_ok loaded_empty = (Returned, loaded_empty)
   \<and> calls (snd (handlePredict fit_ok loaded_empty)) = []
   \<and> predicting (snd (handlePredict fit_ok loaded_empty)) = False
   \<and> predictionResults (snd (handlePredict fit_ok loaded_empty)) = []"
proof -
  have r: "reachable loaded_empty"
    unfolding loaded_empty_def
    by (rule reachable.fetched [OF reachable.mounted]) (simp add: init_def)
  have e: "products loaded_empty = []"
    by (simp add: loaded_empty_def fetch_then_def)
  show ?thesis
    using empty_catalog_noop [OF r e, of fit_ok]
    by (simp add: loaded_empty_def fetch_then_def init_def)
qed

subsection \<open>The run state\<close>

text \<open>
  C8, as stated, fails. Called while \<open>predicting\<close> is set, handlePredict is not rejected:
  it trains and predicts again. And when the trainer throws, the call ends with
  \<open>predicting\<close> still set.
\<close>

theorem run_state_counterexample:
  "predicting busy
   \<and> handlePredict fit_ok busy \<noteq> (Returned, busy)
   \<and> calls (snd (handlePredict fit_ok busy))
       = [Fit [[Num 10, Num 7, Num 2], [Num 21, Num 7, Num 5]] [1, 1] 80 True,
          Predict [Num 10, Num 7, Num 2], Predict [Num 21, Num 7, Num 5]]
   \<and> fst (handlePredict fit_throws loaded) = Threw (Thrown ''fit failed'')
   \<and> predicting (snd (handlePredict fit_throws loaded))"
  by (simp add: run_simps)

text \<open>
  C8, amended. A run proceeds only on a catalogue that is not empty: on an empty one
  handlePredict returns with nothing changed. On a catalogue that is not empty it calls
  the trainer whatever the run state is; the guard against a second run is the Predict
  button, which cannot be clicked while \<open>predicting\<close> is set. A run that returns leaves
  the run state idle.
\<close>

theorem run_state:
  "(products w = [] \<longrightarrow> handlePredict fit w = (Returned, w))
   \<and> (products w \<noteq> [] \<longrightarrow>
        (\<exists>cs. calls (snd (handlePredict fit w))
               = calls w @ Fit (trainingInputs (products w)) (trainingOutputs (products w)) 80 True # cs))
   \<and> (can_click w \<longrightarrow> \<not> predicting w)
   \<and> (products w \<noteq> [] \<and> fst (handlePredict fit w) = Returned \<longrightarrow>
        \<not> predicting (snd (handlePredict fit w)))"
proof -
  obtain out w' where run: "handlePredict fit w = (out, w')"
    by (cases "handlePredict fit w")
  show ?thesis
    using handlePredict_empty [of w fit] handlePredict_calls_fit [OF _ run]
      handlePredict_predicting [OF _ run]
    by (auto simp: run can_click_def)
qed

theorem run_state_witness:
  "handlePredict fit_ok loaded_empty = (Returned, loaded_empty)
   \<and> (\<exists>cs. calls (snd (handlePredict fit_ok loaded))
            = Fit [[Num 10, Num 7, Num 2], [Num 21, Num 7, Num 5]] [1, 1] 80 True # cs)
   \<and> can_click loaded \<and> \<not> predicting loaded
   \<and> fst (handlePredict fit_ok loaded) = Returned
   \<and> \<not> predicting (snd (handlePredict fit_ok loaded))"
  using run_state [of loaded_empty fit_ok] run_state [of loaded fit_ok]
  by (simp add: run_simps can_click_def)

subsection \<open>Tensors\<close>

text \<open>
  C9 does not hold of the code. After a run on Widget and Gadget that succeeds, two
  tensors are still allocated, the outputs of the two \<open>model.predict\<close> calls (tensors 3
  and 5; the training tensors 0 and 1 and the input tensors 2 and 4 are disposed of).
  After a run in which the trainer throws, the two training tensors are still allocated.
\<close>

theorem tensors_left_allocated:
  "fst (handlePredict fit_ok loaded) = Returned
   \<and> live loaded = []
   \<and> live (snd (handlePredict fit_ok loaded)) = [3, 5]
   \<and> fst (handlePredict fit_throws loaded) = Threw (Thrown ''fit failed'')
   \<and> live (snd (handlePredict fit_throws loaded)) = [0, 1]"
  by (simp add: run_simps)

text \<open>
  The same for every catalogue: a run that returns leaves one more tensor allocated per
  product, and a run whose trainer throws leaves the two training tensors.
\<close>

lemma predict_loop_live:
  "fresh_ids w \<Longrightarrow> predict_loop model ps preds w = (Inr rs, w') \<Longrightarrow>
     length (live w') = length (live w) + length ps \<and> fresh_ids w'"
proof (induction ps arbitrary: preds w)
  case Nil
  then show ?case by simp
next
  case (Cons p ps)
  from Cons.prems(2) obtain q where q: "model (featureRow p) = Inr q"
    by (cases "model (featureRow p)") (auto simp: alloc_tensor_def)
  have notin: "next_id w \<notin> set (live w)"
    using Cons.prems(1) by (auto simp: fresh_ids_def list_all_iff)
  have "\<exists>r w4. predict_loop model (p # ps) preds w = predict_loop model ps (preds @ [r]) w4
          \<and> live w4 = live w @ [Suc (next_id w)] \<and> next_id w4 = Suc (Suc (next_id w))"
  proof (intro exI conjI)
    show "predict_loop model (p # ps) preds w =
        predict_loop model ps
          (preds @ [\<lparr>res_name = name p,
                     res_prediction = (if q > 0.5 then ''Reorder'' else ''No Reorder''),
                     res_stock = stock p, avgSales = average_weekly_sales p,
                     leadTime = lead_time p,
                     res_reorder_point =
                       calculateReorderPoint (average_weekly_sales p) (lead_time p)\<rparr>])
          (dispose (next_id w)
             (snd (alloc_tensor ((snd (alloc_tensor w))\<lparr>calls := calls w @ [Predict (featureRow p)]\<rparr>))))"
      using q by (simp add: alloc_tensor_def Let_def)
    show "live (dispose (next_id w)
             (snd (alloc_tensor ((snd (alloc_tensor w))\<lparr>calls := calls w @ [Predict (featureRow p)]\<rparr>))))
          = live w @ [Suc (next_id w)]"
      using notin by (simp add: alloc_tensor_def dispose_def)
    show "next_id (dispose (next_id w)
             (snd (alloc_tensor ((snd (alloc_tensor w))\<lparr>calls := calls w @ [Predict (featureRow p)]\<rparr>))))
          = Suc (Suc (next_id w))"
      by (simp add: alloc_tensor_def dispose_def)
  qed
  then obtain r w4 where
    step: "predict_loop model (p # ps) preds w = predict_loop model ps (preds @ [r]) w4"
    and w4: "live w4 = live w @ [Suc (next_id w)]" "next_id w4 = Suc (Suc (next_id w))"
    by blast
  have fresh: "fresh_ids w4"
    using Cons.prems(1) by (auto simp: fresh_ids_def list_all_iff w4)
  from step Cons.prems(2) have "predict_loop model ps (preds @ [r]) w4 = (Inr rs, w')"
    by simp
  from Cons.IH [OF fresh this] show ?case
    by (simp add: w4)
qed

lemma successful_run_leaks:
  assumes "fresh_ids w" and "products w \<noteq> []" and "handlePredict fit w = (Returned, w')"
  shows "length (live w') = length (live w) + length (products w)"
proof -
  have notin: "next_id w \<notin> set (live w)" "Suc (next_id w) \<notin> set (live w)"
    using assms(1) by (auto simp: fresh_ids_def list_all_iff)
  define w6 where "w6 = w\<lparr>predicting := True, next_id := Suc (Suc (next_id w)),
      calls := calls w @ [Fit (trainingInputs (products w)) (trainingOutputs (products w)) 80 True]\<rparr>"
  have fresh: "fresh_ids w6"
    using assms(1) by (auto simp: fresh_ids_def list_all_iff w6_def)
  from assms(2,3) notin obtain model rs w7 where
    loop: "predict_loop model (products w) [] w6 = (Inr rs, w7)"
    and w': "w' = w7\<lparr>predictionResults := rs, predicting := False\<rparr>"
    by (auto simp: handlePredict_def alloc_tensor_def dispose_def Let_def w6_def
        split: sum.splits prod.splits)
  from predict_loop_live [OF fresh loop] show ?thesis
    by (simp add: w' w6_def)
qed

lemma failed_training_leaks:
  assumes "products w \<noteq> []"
    and "fit (trainingInputs (products w)) (trainingOutputs (products w)) = Inl e"
  shows "handlePredict fit w =
           (Threw e, w\<lparr>predicting := True, live := live w @ [next_id w, Suc (next_id w)],
                        next_id := Suc (Suc (next_id w)),
                        calls := calls w @ [Fit (trainingInputs (products w))
                                              (trainingOutputs (products w)) 80 True]\<rparr>)"
  using assms by (simp add: handlePredict_def alloc_tensor_def Let_def)

end
